theory Spec2Isabelle
  imports Main "HOL-Library.Word"
begin

unbundle bit_operations_syntax

section \<open>Python values and strings\<close>

text \<open>
  The module under study is \<^verbatim>\<open>aurimyth/foundation_kit/common/logging/__init__.py\<close>.
  Python \<^verbatim>\<open>str\<close> values are modelled as \<^typ>\<open>string\<close>; the string methods below are
  those of Python on ASCII text (characters from 128 up carry no case and are not
  white space here).  The values a caller may bind into a record's \<^verbatim>\<open>extra\<close> dictionary
  (typed \<^verbatim>\<open>Any\<close> in Python) are \<^verbatim>\<open>None\<close>, booleans, integers and strings.
\<close>

datatype pyval = PNone | PBool bool | PInt int | PStr string

text \<open>Python truthiness (\<^verbatim>\<open>bool(v)\<close>), as \<^verbatim>\<open>not\<close>, \<^verbatim>\<open>if\<close> and loguru's filter test use it.\<close>

fun truthy :: "pyval \<Rightarrow> bool" where
  "truthy PNone = False"
| "truthy (PBool b) = b"
| "truthy (PInt i) = (i \<noteq> 0)"
| "truthy (PStr s) = (s \<noteq> [])"

text \<open>\<^verbatim>\<open>d.get(key, default)\<close>; \<^verbatim>\<open>d.get(key)\<close> is \<open>dict_get d key PNone\<close>.\<close>

definition dict_get :: "(string \<rightharpoonup> pyval) \<Rightarrow> string \<Rightarrow> pyval \<Rightarrow> pyval" where
  "dict_get d key dflt = (case d key of None \<Rightarrow> dflt | Some v \<Rightarrow> v)"

definition is_upper :: "char \<Rightarrow> bool" where
  "is_upper c = (65 \<le> (of_char c :: nat) \<and> (of_char c :: nat) \<le> 90)"

definition is_lower :: "char \<Rightarrow> bool" where
  "is_lower c = (97 \<le> (of_char c :: nat) \<and> (of_char c :: nat) \<le> 122)"

text \<open>\<^verbatim>\<open>str.isspace\<close> on ASCII: tab, line feed, vertical tab, form feed, carriage return,
  the four separators 28..31 and the space.\<close>

definition is_space :: "char \<Rightarrow> bool" where
  "is_space c = ((9 \<le> (of_char c :: nat) \<and> (of_char c :: nat) \<le> 13)
                 \<or> (28 \<le> (of_char c :: nat) \<and> (of_char c :: nat) \<le> 32))"

definition lower_char :: "char \<Rightarrow> char" where
  "lower_char c = (if is_upper c then char_of ((of_char c :: nat) + 32) else c)"

definition upper_char :: "char \<Rightarrow> char" where
  "upper_char c = (if is_lower c then char_of ((of_char c :: nat) - 32) else c)"

definition py_lower :: "string \<Rightarrow> string" where
  "py_lower s = map lower_char s"

definition py_upper :: "string \<Rightarrow> string" where
  "py_upper s = map upper_char s"

definition py_strip :: "string \<Rightarrow> string" where
  "py_strip s = rev (dropWhile is_space (rev (dropWhile is_space s)))"

text \<open>\<^verbatim>\<open>str(n)\<close> for an integer: decimal digits, with a minus sign below zero.\<close>

definition digit_char :: "nat \<Rightarrow> char" where
  "digit_char d = char_of (48 + d)"

fun str_nat :: "nat \<Rightarrow> string" where
  "str_nat n = (if n < 10 then [digit_char n] else str_nat (n div 10) @ [digit_char (n mod 10)])"

definition str_int :: "int \<Rightarrow> string" where
  "str_int i = (if i < 0 then CHR ''-'' # str_nat (nat (- i)) else str_nat (nat i))"

text \<open>\<^verbatim>\<open>os.path.join(a, b)\<close> of \<^verbatim>\<open>posixpath\<close>, for two components.\<close>

definition os_path_join :: "string \<Rightarrow> string \<Rightarrow> string" where
  "os_path_join a b =
     (if b \<noteq> [] \<and> hd b = CHR ''/'' then b
      else if a = [] \<or> last a = CHR ''/'' then a @ b
      else a @ ''/'' @ b)"

section \<open>Service context and trace id (the context variables)\<close>

text \<open>\<^verbatim>\<open>class ServiceContext(str, Enum)\<close> with its three members and their values.\<close>

datatype ServiceContext = API | SCHEDULER | WORKER

fun ctx_value :: "ServiceContext \<Rightarrow> string" where
  "ctx_value API = ''api''"
| "ctx_value SCHEDULER = ''scheduler''"
| "ctx_value WORKER = ''worker''"

text \<open>The enum call \<^verbatim>\<open>ServiceContext(val)\<close>: the member with that value, \<open>None\<close> where
  Python raises \<^verbatim>\<open>ValueError\<close>.\<close>

definition ServiceContext_of :: "string \<Rightarrow> ServiceContext option" where
  "ServiceContext_of val =
     (if val = ''api'' then Some API
      else if val = ''scheduler'' then Some SCHEDULER
      else if val = ''worker'' then Some WORKER
      else None)"

text \<open>An argument of type \<^verbatim>\<open>ServiceContext | str\<close>.\<close>

datatype ctx_arg = Ctx ServiceContext | Str string

text \<open>\<^verbatim>\<open>_to_service_context\<close>: an enum member is returned as it is; a string is stripped
  and lower-cased, the legacy value \<^verbatim>\<open>"app"\<close> is replaced by \<^verbatim>\<open>"api"\<close>, and the
  \<^verbatim>\<open>ValueError\<close> of the enum call is caught and answered with \<^verbatim>\<open>ServiceContext.API\<close>.\<close>

definition to_service_context :: "ctx_arg \<Rightarrow> ServiceContext" where
  "to_service_context ctx =
     (case ctx of
        Ctx c \<Rightarrow> c
      | Str s \<Rightarrow>
          (let val0 = py_lower (py_strip s);
               val = (if val0 = ''app'' then ctx_value API else val0)
           in case ServiceContext_of val of Some c \<Rightarrow> c | None \<Rightarrow> API))"

text \<open>
  \<^verbatim>\<open>str(uuid.uuid4())\<close> of the standard library: sixteen random bytes read as a
  128-bit integer, the variant and version bits overwritten, printed as 32 lower-case
  hexadecimal digits in the groups 8-4-4-4-12.
\<close>

definition uuid4 :: "128 word \<Rightarrow> 128 word" where
  "uuid4 r =
     (let i1 = r AND NOT (push_bit 48 0xc000);
          i2 = i1 OR push_bit 48 0x8000;
          i3 = i2 AND NOT (push_bit 64 0xf000)
      in i3 OR push_bit 76 4)"

definition hex_digit :: "nat \<Rightarrow> char" where
  "hex_digit n = (if n < 10 then char_of (48 + n) else char_of (87 + n))"

definition hex32 :: "128 word \<Rightarrow> string" where
  "hex32 w = map (\<lambda>i. hex_digit (unat (drop_bit (4 * (31 - i)) w AND 15))) [0..<32]"

definition uuid_str :: "128 word \<Rightarrow> string" where
  "uuid_str w =
     (let h = hex32 w
      in take 8 h @ ''-'' @ take 4 (drop 8 h) @ ''-'' @ take 4 (drop 12 h) @ ''-''
         @ take 4 (drop 16 h) @ ''-'' @ drop 20 h)"

section \<open>Records, sinks and the state of the module\<close>

text \<open>loguru's seven default levels with their names and severities; the repository
  registers no level of its own.\<close>

datatype level = TRACE | DEBUG | INFO | SUCCESS | WARNING | ERROR | CRITICAL

fun level_name :: "level \<Rightarrow> string" where
  "level_name TRACE = ''TRACE''"
| "level_name DEBUG = ''DEBUG''"
| "level_name INFO = ''INFO''"
| "level_name SUCCESS = ''SUCCESS''"
| "level_name WARNING = ''WARNING''"
| "level_name ERROR = ''ERROR''"
| "level_name CRITICAL = ''CRITICAL''"

fun level_no :: "level \<Rightarrow> int" where
  "level_no TRACE = 5"
| "level_no DEBUG = 10"
| "level_no INFO = 20"
| "level_no SUCCESS = 25"
| "level_no WARNING = 30"
| "level_no ERROR = 40"
| "level_no CRITICAL = 50"

text \<open>The lookup \<^verbatim>\<open>logger.add(..., level=name)\<close> performs; names are case-sensitive and
  \<open>None\<close> stands for the \<^verbatim>\<open>ValueError\<close> loguru raises for an unknown name.\<close>

definition level_of_name :: "string \<Rightarrow> level option" where
  "level_of_name n =
     (if n = ''TRACE'' then Some TRACE
      else if n = ''DEBUG'' then Some DEBUG
      else if n = ''INFO'' then Some INFO
      else if n = ''SUCCESS'' then Some SUCCESS
      else if n = ''WARNING'' then Some WARNING
      else if n = ''ERROR'' then Some ERROR
      else if n = ''CRITICAL'' then Some CRITICAL
      else None)"

text \<open>
  A loguru record.  \<open>rec_time\<close> is the record's datetime, given by its
  \<^verbatim>\<open>__format__\<close> method (from a loguru time pattern to the text);
  \<open>rec_name\<close>, \<open>rec_function\<close> and \<open>rec_line\<close> are the call site;
  \<open>rec_extra\<close> is the \<^verbatim>\<open>extra\<close> dictionary.
\<close>

record log_record =
  rec_time :: "string \<Rightarrow> string"
  rec_level :: level
  rec_message :: string
  rec_name :: string
  rec_function :: string
  rec_line :: nat
  rec_extra :: "string \<rightharpoonup> pyval"

datatype target = Console | File string

text \<open>The keyword arguments of \<^verbatim>\<open>logger.add\<close> the module passes besides sink, level,
  format and filter; an argument left out has loguru's default.\<close>

record sink_opts =
  opt_rotation :: "string option"
  opt_retention :: "string option"
  opt_encoding :: "string option"
  opt_enqueue :: bool
  opt_delay :: bool
  opt_colorize :: bool

text \<open>An installed sink (a loguru handler): where it writes (for a file, the path
  pattern), the severity its level name resolved to, its format and its filter.\<close>

record sink =
  sink_target :: target
  sink_levelno :: int
  sink_fmt :: string
  sink_flt :: "(log_record \<Rightarrow> pyval) option"
  sink_opts :: sink_opts

text \<open>The module-level dictionary \<^verbatim>\<open>_log_config\<close>.\<close>

record log_config =
  cfg_log_dir :: string
  cfg_rotation :: string
  cfg_retention_days :: int
  cfg_file_format :: string
  cfg_initialized :: bool

text \<open>
  The state the module reads and writes, seen from one execution context: the two
  context variables, \<^verbatim>\<open>_log_config\<close>, loguru's handlers in the order they were added
  and whether the patcher is configured.  Two fields stand for the environment:
  \<open>makedirs_fails\<close> tells for which directory \<^verbatim>\<open>os.makedirs\<close> raises, and \<open>urandom\<close>
  with its read position is the source of the random bytes of \<^verbatim>\<open>uuid.uuid4\<close>.
\<close>

record world =
  service_context_var :: ServiceContext
  trace_id_var :: string
  log_config :: log_config
  handlers :: "sink list"
  patcher_set :: bool
  makedirs_fails :: "string \<Rightarrow> bool"
  urandom :: "nat \<Rightarrow> 128 word"
  urandom_pos :: nat

text \<open>The state after import: the defaults of the context variables and of
  \<^verbatim>\<open>_log_config\<close>, and no handler (the module calls \<^verbatim>\<open>logger.remove()\<close> at import).\<close>

definition initial_world :: "(string \<Rightarrow> bool) \<Rightarrow> (nat \<Rightarrow> 128 word) \<Rightarrow> world" where
  "initial_world mf rnd =
     \<lparr>service_context_var = API, trace_id_var = [],
      log_config = \<lparr>cfg_log_dir = ''logs'', cfg_rotation = ''00:00'', cfg_retention_days = 7,
                    cfg_file_format = [], cfg_initialized = False\<rparr>,
      handlers = [], patcher_set = False,
      makedirs_fails = mf, urandom = rnd, urandom_pos = 0\<rparr>"

datatype py_error = RuntimeError | ValueError | OSError

text \<open>A call either returns a value or raises; both leave a state behind, since an
  exception does not undo what ran before it.\<close>

datatype 'a outcome = Returned 'a world | Raised py_error world

fun world_of :: "'a outcome \<Rightarrow> world" where
  "world_of (Returned x w) = w"
| "world_of (Raised e w) = w"

fun returned :: "'a outcome \<Rightarrow> bool" where
  "returned (Returned x w) = True"
| "returned (Raised e w) = False"

text \<open>Sequencing: the second call runs in the state the first one returned in; an
  exception of the first is passed on.\<close>

fun and_then :: "'a outcome \<Rightarrow> ('a \<Rightarrow> world \<Rightarrow> 'b outcome) \<Rightarrow> 'b outcome" where
  "and_then (Returned x w) f = f x w"
| "and_then (Raised e w) f = Raised e w"

text \<open>A \<^verbatim>\<open>for\<close> loop whose body may raise.\<close>

fun for_each :: "'a list \<Rightarrow> ('a \<Rightarrow> world \<Rightarrow> unit outcome) \<Rightarrow> world \<Rightarrow> unit outcome" where
  "for_each [] body w = Returned () w"
| "for_each (x # xs) body w = and_then (body x w) (\<lambda>_. for_each xs body)"

subsection \<open>The context store\<close>

definition get_service_context :: "world \<Rightarrow> ServiceContext" where
  "get_service_context w = service_context_var w"

definition set_service_context :: "ctx_arg \<Rightarrow> world \<Rightarrow> world" where
  "set_service_context context w = w\<lparr>service_context_var := to_service_context context\<rparr>"

text \<open>\<^verbatim>\<open>get_trace_id\<close>: an empty stored value is falsy, so a fresh id is drawn, stored and
  returned; otherwise the stored value is returned.\<close>

definition get_trace_id :: "world \<Rightarrow> string \<times> world" where
  "get_trace_id w =
     (let trace_id = trace_id_var w
      in if trace_id = []
         then (let trace_id = uuid_str (uuid4 (urandom w (urandom_pos w)))
               in (trace_id, w\<lparr>trace_id_var := trace_id, urandom_pos := Suc (urandom_pos w)\<rparr>))
         else (trace_id, w))"


subsection \<open>loguru: handlers, patcher and emission\<close>

text \<open>
  What the module relies on from loguru, as far as the state above shows it.
  \<^verbatim>\<open>logger.remove()\<close> drops every handler.  \<^verbatim>\<open>logger.add\<close> resolves the level name
  (raising \<^verbatim>\<open>ValueError\<close> for an unknown one, in which case nothing is added) and
  appends the handler; the other arguments are stored as they are given.
\<close>

definition logger_remove :: "world \<Rightarrow> world" where
  "logger_remove w = w\<lparr>handlers := []\<rparr>"

definition logger_add ::
  "target \<Rightarrow> string \<Rightarrow> string \<Rightarrow> (log_record \<Rightarrow> pyval) option \<Rightarrow> sink_opts \<Rightarrow> world
     \<Rightarrow> unit outcome" where
  "logger_add tgt level fmt flt opts w =
     (case level_of_name level of
        None \<Rightarrow> Raised ValueError w
      | Some l \<Rightarrow>
          Returned () (w\<lparr>handlers := handlers w @
            [\<lparr>sink_target = tgt, sink_levelno = level_no l, sink_fmt = fmt,
              sink_flt = flt, sink_opts = opts\<rparr>]\<rparr>))"

text \<open>The patcher \<^verbatim>\<open>setup_logging\<close> configures: it updates the record's \<^verbatim>\<open>extra\<close>
  with the trace id (read first, which may generate and store one) and the value of the
  current service context.\<close>

definition patcher :: "log_record \<Rightarrow> world \<Rightarrow> log_record \<times> world" where
  "patcher r w =
     (let (trace_id, w1) = get_trace_id w;
          service = ctx_value (get_service_context w1)
      in (r\<lparr>rec_extra := (rec_extra r)(''trace_id'' \<mapsto> PStr trace_id,
                                          ''service'' \<mapsto> PStr service)\<rparr>, w1))"

definition logger_configure :: "world \<Rightarrow> world" where
  "logger_configure w = w\<lparr>patcher_set := True\<rparr>"

text \<open>A handler takes a record when the record's severity reaches the handler's and
  the filter, if there is one, returns a truthy value.\<close>

definition filter_accepts :: "sink \<Rightarrow> log_record \<Rightarrow> bool" where
  "filter_accepts h r = (case sink_flt h of None \<Rightarrow> True | Some f \<Rightarrow> truthy (f r))"

definition sink_accepts :: "sink \<Rightarrow> log_record \<Rightarrow> bool" where
  "sink_accepts h r = (sink_levelno h \<le> level_no (rec_level r) \<and> filter_accepts h r)"

text \<open>
  Emitting a record (\<^verbatim>\<open>logger.info(...)\<close> and the like; \<open>r\<close> is the record as loguru
  builds it, with the \<^verbatim>\<open>extra\<close> bound by the caller): nothing happens without handlers
  or below the lowest handler level; otherwise the patcher runs, and then every handler
  is offered the patched record.  The result lists the targets that take it.
\<close>

definition deliver :: "sink list \<Rightarrow> log_record \<Rightarrow> target list" where
  "deliver hs r = map sink_target (filter (\<lambda>h. sink_accepts h r) hs)"

definition logger_log :: "log_record \<Rightarrow> world \<Rightarrow> target list \<times> world" where
  "logger_log r w =
     (if handlers w = [] then ([], w)
      else if list_all (\<lambda>h. level_no (rec_level r) < sink_levelno h) (handlers w) then ([], w)
      else (let (r1, w1) = (if patcher_set w then patcher r w else (r, w))
            in (deliver (handlers w1) r1, w1)))"

text \<open>The module's own log calls: their message text and call site are not modelled,
  only the level, and only the state they leave behind is kept.\<close>

definition blank_record :: "level \<Rightarrow> log_record" where
  "blank_record l =
     \<lparr>rec_time = (\<lambda>_. []), rec_level = l, rec_message = [], rec_name = [],
      rec_function = [], rec_line = 0, rec_extra = Map.empty\<rparr>"

definition logger_call :: "level \<Rightarrow> world \<Rightarrow> world" where
  "logger_call l w = snd (logger_log (blank_record l) w)"

section \<open>Registering and setting up sinks\<close>

text \<open>The three filters of the module: the \<^verbatim>\<open>lambda record, c=ctx\<close> of the INFO file,
  that of the ERROR file, and \<^verbatim>\<open>sink_filter(record, key=filter_key)\<close>.\<close>

definition info_filter :: "string \<Rightarrow> log_record \<Rightarrow> pyval" where
  "info_filter c r =
     PBool (dict_get (rec_extra r) ''service'' PNone = PStr c
            \<and> level_name (rec_level r) \<notin> set [''ERROR'', ''CRITICAL'']
            \<and> \<not> truthy (dict_get (rec_extra r) ''access'' (PBool False)))"

definition error_filter :: "string \<Rightarrow> log_record \<Rightarrow> pyval" where
  "error_filter c r = PBool (dict_get (rec_extra r) ''service'' PNone = PStr c)"


definition console_format :: string where
  "console_format =
     ''<green>{time:YYYY-MM-DD HH:mm:ss}</green> | '' @
     ''<cyan>[{extra[service]}]</cyan> | '' @
     ''<level>{level: <8}</level> | '' @
     ''<cyan>{name}:{function}:{line}</cyan> | '' @
     ''{extra[trace_id]:.8} - '' @
     ''<level>{message}</level>''"

definition file_format :: string where
  "file_format =
     ''{time:YYYY-MM-DD HH:mm:ss} | '' @
     ''{level: <8} | '' @
     ''{name}:{function}:{line} | '' @
     ''{extra[trace_id]} - '' @
     ''{message}''"


definition console_opts :: sink_opts where
  "console_opts =
     \<lparr>opt_rotation = None, opt_retention = None, opt_encoding = None,
      opt_enqueue = False, opt_delay = False, opt_colorize = True\<rparr>"

definition file_opts :: "string \<Rightarrow> int \<Rightarrow> bool \<Rightarrow> sink_opts" where
  "file_opts rotation retention_days delay =
     \<lparr>opt_rotation = Some rotation, opt_retention = Some (str_int retention_days @ '' days''),
      opt_encoding = Some ''utf-8'', opt_enqueue = True, opt_delay = delay,
      opt_colorize = False\<rparr>"


text \<open>The list \<^verbatim>\<open>contexts_to_create\<close> and the body of the loop over it: the INFO file
  and the ERROR file of one context, each under its dated or its plain name.\<close>

definition contexts_to_create :: "ServiceContext \<Rightarrow> string list" where
  "contexts_to_create service_type_enum =
     [ctx_value service_type_enum]
     @ (if service_type_enum = API then [ctx_value SCHEDULER] else [])"

definition add_context_files ::
  "string \<Rightarrow> string \<Rightarrow> bool \<Rightarrow> string \<Rightarrow> int \<Rightarrow> string \<Rightarrow> world \<Rightarrow> unit outcome" where
  "add_context_files log_level log_dir enable_file_rotation rotation retention_days ctx w =
     and_then
       (if enable_file_rotation
        then logger_add (File (os_path_join log_dir (ctx @ ''_info_{time:YYYY-MM-DD}.log'')))
               log_level file_format (Some (info_filter ctx))
               (file_opts rotation retention_days False) w
        else logger_add (File (os_path_join log_dir (ctx @ ''_info.log'')))
               log_level file_format (Some (info_filter ctx))
               (file_opts rotation retention_days False) w)
       (\<lambda>_ w.
          if enable_file_rotation
          then logger_add (File (os_path_join log_dir (ctx @ ''_error_{time:YYYY-MM-DD}.log'')))
                 ''ERROR'' file_format (Some (error_filter ctx))
                 (file_opts rotation retention_days False) w
          else logger_add (File (os_path_join log_dir (ctx @ ''_error.log'')))
                 ''ERROR'' file_format (Some (error_filter ctx))
                 (file_opts rotation retention_days False) w)"

text \<open>\<^verbatim>\<open>setup_logging(log_level, log_dir, service_type, enable_file_rotation,
  rotation_time, retention_days, rotation_size, enable_console)\<close>.\<close>

definition setup_logging ::
  "string \<Rightarrow> string option \<Rightarrow> ctx_arg \<Rightarrow> bool \<Rightarrow> string \<Rightarrow> int \<Rightarrow> string \<Rightarrow> bool \<Rightarrow> world
     \<Rightarrow> unit outcome" where
  "setup_logging log_level log_dir service_type enable_file_rotation rotation_time
       retention_days rotation_size enable_console w =
     (let log_level = py_upper log_level;
          log_dir = (case log_dir of
                       None \<Rightarrow> ''logs''
                     | Some d \<Rightarrow> if d \<noteq> [] then d else ''logs'')
      in if makedirs_fails w log_dir then Raised OSError w
         else
           (let rotation = (if enable_file_rotation then rotation_time else rotation_size);
                service_type_enum = to_service_context service_type;
                w = logger_remove w;
                w = w\<lparr>log_config := (log_config w)
                      \<lparr>cfg_log_dir := log_dir, cfg_rotation := rotation,
                       cfg_retention_days := retention_days, cfg_initialized := True\<rparr>\<rparr>;
                w = set_service_context (Ctx service_type_enum) w;
                w = w\<lparr>log_config := (log_config w)\<lparr>cfg_file_format := file_format\<rparr>\<rparr>;
                w = logger_configure w
            in and_then
                 (if enable_console
                  then logger_add Console log_level console_format None console_opts w
                  else Returned () w)
                 (\<lambda>_ w.
                    and_then
                      (for_each (contexts_to_create service_type_enum)
                         (add_context_files log_level log_dir enable_file_rotation rotation
                            retention_days) w)
                      (\<lambda>_ w. Returned () (logger_call INFO w)))))"

section \<open>Rendering a record with a format\<close>

text \<open>
  loguru renders a record by Python's \<^verbatim>\<open>str.format\<close> over the record's fields.  The
  fragment below covers the formats the module gives to its file sinks: literal text and
  replacement fields \<^verbatim>\<open>{field}\<close> or \<^verbatim>\<open>{field:spec}\<close>, where the spec of a string
  is \<^verbatim>\<open>[[fill]align][width][.precision]\<close>.  \<open>None\<close> is returned where Python raises
  (an unbalanced brace, a missing \<^verbatim>\<open>extra\<close> key) and for what the fragment leaves out
  (brace escapes, colour markup, other specs).
\<close>

datatype seg = Lit string | Fld string string

definition mk_field :: "string \<Rightarrow> seg" where
  "mk_field body =
     Fld (takeWhile (\<lambda>c. c \<noteq> CHR '':'') body) (drop 1 (dropWhile (\<lambda>c. c \<noteq> CHR '':'') body))"

definition lit_seg :: "string \<Rightarrow> seg list" where
  "lit_seg lit = (if lit = [] then [] else [Lit lit])"

fun parse_text :: "string \<Rightarrow> string \<Rightarrow> seg list option"
  and parse_field :: "string \<Rightarrow> string \<Rightarrow> seg list option" where
  "parse_text lit [] = Some (lit_seg lit)"
| "parse_text lit (c # cs) =
     (if c = CHR ''{'' then map_option (\<lambda>segs. lit_seg lit @ segs) (parse_field [] cs)
      else if c = CHR ''}'' then None
      else parse_text (lit @ [c]) cs)"
| "parse_field body [] = None"
| "parse_field body (c # cs) =
     (if c = CHR ''}'' then map_option (\<lambda>segs. mk_field body # segs) (parse_text [] cs)
      else if c = CHR ''{'' then None
      else parse_field (body @ [c]) cs)"

definition is_align :: "char \<Rightarrow> bool" where
  "is_align c = (c = CHR ''<'' \<or> c = CHR ''>'' \<or> c = CHR ''^'')"

definition is_digit :: "char \<Rightarrow> bool" where
  "is_digit c = (48 \<le> (of_char c :: nat) \<and> (of_char c :: nat) \<le> 57)"

definition digits_val :: "string \<Rightarrow> nat" where
  "digits_val ds = foldl (\<lambda>n c. 10 * n + ((of_char c :: nat) - 48)) 0 ds"

text \<open>A parsed spec: fill character, alignment if given, width, precision if given.\<close>

definition parse_spec :: "string \<Rightarrow> (char \<times> char option \<times> nat \<times> nat option) option" where
  "parse_spec spec =
     (let (fill, align, rest) =
            (if 2 \<le> length spec \<and> is_align (spec ! 1) then (spec ! 0, Some (spec ! 1), drop 2 spec)
             else if spec \<noteq> [] \<and> is_align (hd spec) then (CHR '' '', Some (hd spec), drop 1 spec)
             else (CHR '' '', None, spec));
          wd = takeWhile is_digit rest;
          rest = dropWhile is_digit rest;
          (prec, rest) =
            (if rest \<noteq> [] \<and> hd rest = CHR ''.''
             then (Some (takeWhile is_digit (tl rest)), dropWhile is_digit (tl rest))
             else (None, rest))
      in if rest \<noteq> [] \<or> prec = Some [] \<or> (wd \<noteq> [] \<and> hd wd = CHR ''0'') then None
         else Some (fill, align, digits_val wd, map_option digits_val prec))"

text \<open>\<^verbatim>\<open>format(s, spec)\<close> for a string: cut to the precision, then filled up to the
  width; a string is left-aligned unless the spec says otherwise.\<close>

definition py_format_str :: "string \<Rightarrow> string \<Rightarrow> string option" where
  "py_format_str spec s =
     (case parse_spec spec of
        None \<Rightarrow> None
      | Some (fill, align, width, prec) \<Rightarrow>
          (let s1 = (case prec of None \<Rightarrow> s | Some p \<Rightarrow> take p s);
               pad = width - length s1
           in Some (if align = Some (CHR ''>'') then replicate pad fill @ s1
                    else if align = Some (CHR ''^'')
                      then replicate (pad div 2) fill @ s1 @ replicate (pad - pad div 2) fill
                    else s1 @ replicate pad fill)))"

text \<open>\<^verbatim>\<open>str(v)\<close> of a value in \<^verbatim>\<open>extra\<close>.\<close>

fun py_str :: "pyval \<Rightarrow> string" where
  "py_str PNone = ''None''"
| "py_str (PBool b) = (if b then ''True'' else ''False'')"
| "py_str (PInt i) = str_int i"
| "py_str (PStr s) = s"

definition format_value :: "string \<Rightarrow> pyval \<Rightarrow> string option" where
  "format_value spec v =
     (case v of
        PStr s \<Rightarrow> py_format_str spec s
      | _ \<Rightarrow> if spec = [] then Some (py_str v) else None)"

definition extra_key :: "string \<Rightarrow> string option" where
  "extra_key field =
     (if take 6 field = ''extra['' \<and> 7 \<le> length field \<and> last field = CHR '']''
      then Some (butlast (drop 6 field)) else None)"

definition render_field :: "log_record \<Rightarrow> string \<Rightarrow> string \<Rightarrow> string option" where
  "render_field r field spec =
     (if field = ''time'' then Some (rec_time r spec)
      else if field = ''level'' then py_format_str spec (level_name (rec_level r))
      else if field = ''name'' then py_format_str spec (rec_name r)
      else if field = ''function'' then py_format_str spec (rec_function r)
      else if field = ''line'' then (if spec = [] then Some (str_nat (rec_line r)) else None)
      else if field = ''message'' then py_format_str spec (rec_message r)
      else (case extra_key field of
              None \<Rightarrow> None
            | Some key \<Rightarrow>
                (case rec_extra r key of
                   None \<Rightarrow> None
                 | Some v \<Rightarrow> format_value spec v)))"

fun render_segs :: "seg list \<Rightarrow> log_record \<Rightarrow> string option" where
  "render_segs [] r = Some []"
| "render_segs (Lit t # segs) r = map_option (\<lambda>rest. t @ rest) (render_segs segs r)"
| "render_segs (Fld f spec # segs) r =
     (case render_field r f spec of
        None \<Rightarrow> None
      | Some t \<Rightarrow> map_option (\<lambda>rest. t @ rest) (render_segs segs r))"

definition render :: "string \<Rightarrow> log_record \<Rightarrow> string option" where
  "render fmt r = (case parse_text [] fmt of None \<Rightarrow> None | Some segs \<Rightarrow> render_segs segs r)"

text \<open>Left and right justification to a width, with spaces.\<close>

definition ljust :: "nat \<Rightarrow> string \<Rightarrow> string" where
  "ljust n s = s @ replicate (n - length s) (CHR '' '')"

definition rjust :: "nat \<Rightarrow> string \<Rightarrow> string" where
  "rjust n s = replicate (n - length s) (CHR '' '') @ s"

section \<open>Histories of calls\<close>






text \<open>Whether a call is a \<^verbatim>\<open>setup_logging\<close> call that gets past its
  \<^verbatim>\<open>os.makedirs\<close>, where \<open>mf\<close> tells for which directories that fails.\<close>

definition log_dir_or_default :: "string option \<Rightarrow> string" where
  "log_dir_or_default log_dir =
     (case log_dir of None \<Rightarrow> ''logs'' | Some d \<Rightarrow> if d \<noteq> [] then d else ''logs'')"




section \<open>Closed forms\<close>

text \<open>
  The sinks and the state \<^verbatim>\<open>setup_logging\<close> produces, written out; the lemmas
  \<open>setup_logging_closed\<close> and \<open>register_log_sink_closed\<close> below prove that the
  functions above compute exactly these.
\<close>

definition mk_sink ::
  "target \<Rightarrow> level \<Rightarrow> string \<Rightarrow> (log_record \<Rightarrow> pyval) option \<Rightarrow> sink_opts \<Rightarrow> sink" where
  "mk_sink tgt l fmt flt opts =
     \<lparr>sink_target = tgt, sink_levelno = level_no l, sink_fmt = fmt, sink_flt = flt,
      sink_opts = opts\<rparr>"

definition info_file :: "string \<Rightarrow> bool \<Rightarrow> string \<Rightarrow> target" where
  "info_file log_dir rot ctx =
     File (os_path_join log_dir
             (ctx @ (if rot then ''_info_{time:YYYY-MM-DD}.log'' else ''_info.log'')))"

definition error_file :: "string \<Rightarrow> bool \<Rightarrow> string \<Rightarrow> target" where
  "error_file log_dir rot ctx =
     File (os_path_join log_dir
             (ctx @ (if rot then ''_error_{time:YYYY-MM-DD}.log'' else ''_error.log'')))"

definition context_sinks :: "level \<Rightarrow> string \<Rightarrow> bool \<Rightarrow> string \<Rightarrow> int \<Rightarrow> string \<Rightarrow> sink list" where
  "context_sinks l log_dir rot rotation retention_days ctx =
     [mk_sink (info_file log_dir rot ctx) l file_format (Some (info_filter ctx))
        (file_opts rotation retention_days False),
      mk_sink (error_file log_dir rot ctx) ERROR file_format (Some (error_filter ctx))
        (file_opts rotation retention_days False)]"

definition installed_sinks ::
  "level \<Rightarrow> string \<Rightarrow> bool \<Rightarrow> string \<Rightarrow> int \<Rightarrow> bool \<Rightarrow> ServiceContext \<Rightarrow> sink list" where
  "installed_sinks l log_dir rot rotation retention_days enable_console e =
     (if enable_console then [mk_sink Console l console_format None console_opts] else [])
     @ concat (map (context_sinks l log_dir rot rotation retention_days) (contexts_to_create e))"

definition configured :: "string \<Rightarrow> string \<Rightarrow> int \<Rightarrow> ServiceContext \<Rightarrow> world \<Rightarrow> world" where
  "configured log_dir rotation retention_days e w =
     w\<lparr>handlers := [], service_context_var := e,
       log_config := (log_config w)
         \<lparr>cfg_log_dir := log_dir, cfg_rotation := rotation,
          cfg_retention_days := retention_days, cfg_initialized := True,
          cfg_file_format := file_format\<rparr>,
       patcher_set := True\<rparr>"

definition is_file_sink :: "sink \<Rightarrow> bool" where
  "is_file_sink h = (sink_target h \<noteq> Console)"

section \<open>The file format as the specification words it\<close>

text \<open>
  The specification's sentence on the default file format, taken literally: timestamp,
  the level name padded on the left to width 8, module:function:line, the trace id, a
  \<^verbatim>\<open>" - "\<close> separator and the message, with \<^verbatim>\<open>" | "\<close> between the leading fields.
  \<open>t\<close> is the record's trace id.
\<close>

definition spec_file_line :: "log_record \<Rightarrow> string \<Rightarrow> string" where
  "spec_file_line r t =
     rec_time r ''YYYY-MM-DD HH:mm:ss'' @ '' | '' @ rjust 8 (level_name (rec_level r)) @ '' | ''
     @ rec_name r @ '':'' @ rec_function r @ '':'' @ str_nat (rec_line r) @ '' | ''
     @ t @ '' - '' @ rec_message r"

section \<open>Concrete inputs\<close>

text \<open>An environment in which no directory creation fails and the random bytes are all
  zero, the state after import in it, and one record.\<close>

definition no_failure :: "string \<Rightarrow> bool" where
  "no_failure d = False"

definition zero_bytes :: "nat \<Rightarrow> 128 word" where
  "zero_bytes n = 0"

definition w0 :: world where
  "w0 = initial_world no_failure zero_bytes"

definition clock0 :: "string \<Rightarrow> string" where
  "clock0 pattern = ''2024-01-02 03:04:05''"

definition r0 :: log_record where
  "r0 = \<lparr>rec_time = clock0, rec_level = INFO, rec_message = ''started'',
         rec_name = ''app.main'', rec_function = ''boot'', rec_line = 12,
         rec_extra = Map.empty\<rparr>"

text \<open>Two stamped records, as the patcher leaves them under the scheduler context, at
  level INFO and at level ERROR; a record a caller has marked with
  \<^verbatim>\<open>logger.bind(access=True)\<close>; and the state after
  \<^verbatim>\<open>setup_logging("info", service_type="app")\<close> in the state after import.\<close>

definition r_sched :: log_record where
  "r_sched = r0\<lparr>rec_extra := [''trace_id'' \<mapsto> PStr ''00000000-0000-4000-8000-000000000000'',
                               ''service'' \<mapsto> PStr ''scheduler'']\<rparr>"


definition r_access :: log_record where
  "r_access = r0\<lparr>rec_extra := [''access'' \<mapsto> PBool True]\<rparr>"

definition w_api :: world where
  "w_api = world_of (setup_logging ''info'' None (Str ''app'') True ''00:00'' 7 ''100 MB'' True w0)"


section \<open>Properties\<close>

subsection \<open>Auxiliary facts\<close>

lemma to_service_context_Ctx [simp]: "to_service_context (Ctx c) = c"
  by (simp add: to_service_context_def)

lemma contexts_nonempty: "contexts_to_create e \<noteq> []"
  by (simp add: contexts_to_create_def)

lemma logger_add_ok:
  "level_of_name n = Some l \<Longrightarrow>
   logger_add tgt n fmt flt opts w =
     Returned () (w\<lparr>handlers := handlers w @ [mk_sink tgt l fmt flt opts]\<rparr>)"
  by (simp add: logger_add_def mk_sink_def)

lemma logger_add_bad:
  "level_of_name n = None \<Longrightarrow> logger_add tgt n fmt flt opts w = Raised ValueError w"
  by (simp add: logger_add_def)

lemma level_of_name_ERROR: "level_of_name ''ERROR'' = Some ERROR"
  by (simp add: level_of_name_def)

lemma add_context_files_ok:
  "level_of_name n = Some l \<Longrightarrow>
   add_context_files n log_dir rot rotation retention_days ctx w =
     Returned () (w\<lparr>handlers := handlers w @
        context_sinks l log_dir rot rotation retention_days ctx\<rparr>)"
  by (simp add: add_context_files_def logger_add_ok level_of_name_ERROR context_sinks_def
      info_file_def error_file_def)

lemma add_context_files_bad:
  "level_of_name n = None \<Longrightarrow>
   add_context_files n log_dir rot rotation retention_days ctx w = Raised ValueError w"
  by (simp add: add_context_files_def logger_add_bad)

lemma for_each_ok:
  "(\<And>x w. body x w = Returned () (w\<lparr>handlers := handlers w @ f x\<rparr>)) \<Longrightarrow>
   for_each xs body w = Returned () (w\<lparr>handlers := handlers w @ concat (map f xs)\<rparr>)"
  by (induction xs arbitrary: w) simp_all

lemma for_each_bad:
  "(\<And>x w. body x w = Raised e w) \<Longrightarrow> xs \<noteq> [] \<Longrightarrow> for_each xs body w = Raised e w"
  by (cases xs) simp_all

text \<open>What \<^verbatim>\<open>setup_logging\<close> does, case by case: the directory cannot be made; the
  level name is unknown to loguru (the first \<^verbatim>\<open>logger.add\<close> raises, after the old
  sinks are gone and the configuration is recorded); or all sinks are installed and the
  closing log call runs.\<close>

lemma setup_logging_closed:
  "setup_logging log_level log_dir service_type rot rotation_time retention_days rotation_size
       enable_console w =
     (let dir = log_dir_or_default log_dir;
          rotation = (if rot then rotation_time else rotation_size);
          e = to_service_context service_type;
          base = configured dir rotation retention_days e w
      in if makedirs_fails w dir then Raised OSError w
         else (case level_of_name (py_upper log_level) of
                 None \<Rightarrow> Raised ValueError base
               | Some l \<Rightarrow>
                   Returned () (logger_call INFO
                     (base\<lparr>handlers :=
                        installed_sinks l dir rot rotation retention_days enable_console e\<rparr>))))"
proof (cases "level_of_name (py_upper log_level)")
  case None
  have fe: "\<And>w ld r rd xs. xs \<noteq> [] \<Longrightarrow>
      for_each xs (add_context_files (py_upper log_level) ld rot r rd) w = Raised ValueError w"
    by (rule for_each_bad) (simp_all add: add_context_files_bad None)
  show ?thesis
    by (simp add: setup_logging_def Let_def None logger_add_bad fe contexts_nonempty
        log_dir_or_default_def configured_def logger_remove_def set_service_context_def
        logger_configure_def split: option.splits)
next
  case (Some l)
  have fe: "\<And>w ld r rd xs.
      for_each xs (add_context_files (py_upper log_level) ld rot r rd) w
        = Returned () (w\<lparr>handlers := handlers w @ concat (map (context_sinks l ld rot r rd) xs)\<rparr>)"
    by (rule for_each_ok) (simp add: add_context_files_ok Some)
  show ?thesis
    by (simp add: setup_logging_def Let_def Some logger_add_ok fe installed_sinks_def
        log_dir_or_default_def configured_def logger_remove_def set_service_context_def
        logger_configure_def split: option.splits)
qed


subsection \<open>The trace id\<close>













lemma w0_simps:
  "trace_id_var w0 = []" "urandom w0 = zero_bytes" "urandom_pos w0 = 0"
  "service_context_var w0 = API" "handlers w0 = []" "patcher_set w0 = False"
  "makedirs_fails w0 = no_failure" "cfg_initialized (log_config w0) = False"
  by (simp_all add: w0_def initial_world_def)





subsection \<open>Service context, patcher and sinks\<close>





lemma patcher_set_logger_call: "patcher_set (logger_call l w) = patcher_set w"
  by (simp add: logger_call_def logger_log_def patcher_def get_trace_id_def Let_def split: prod.splits)

text \<open>
  C7.  The patcher changes nothing in a record but its \<^verbatim>\<open>extra\<close> dictionary, and there
  it writes exactly the keys \<^verbatim>\<open>trace_id\<close> (the trace id of the scope, generated if
  absent) and \<^verbatim>\<open>service\<close> (the value of the current service context); every other key
  keeps its value.  Once \<^verbatim>\<open>setup_logging\<close> has returned, the patcher is configured,
  and the sinks are offered the patched record, so that every filter finds both keys.
\<close>

theorem patcher_frame:
  "fst (patcher r w) = r\<lparr>rec_extra := rec_extra (fst (patcher r w))\<rparr>
   \<and> rec_extra (fst (patcher r w)) ''trace_id'' = Some (PStr (fst (get_trace_id w)))
   \<and> rec_extra (fst (patcher r w)) ''service'' = Some (PStr (ctx_value (get_service_context w)))
   \<and> (\<forall>k. k \<noteq> ''trace_id'' \<and> k \<noteq> ''service'' \<longrightarrow>
          rec_extra (fst (patcher r w)) k = rec_extra r k)
   \<and> dom (rec_extra (fst (patcher r w))) = dom (rec_extra r) \<union> {''trace_id'', ''service''}
   \<and> snd (patcher r w) = snd (get_trace_id w)
   \<and> (patcher_set w \<longrightarrow> fst (logger_log r w) = deliver (handlers w) (fst (patcher r w)))
   \<and> (returned (setup_logging log_level log_dir service_type rot rotation_time retention_days
                  rotation_size enable_console w) \<longrightarrow>
        patcher_set (world_of (setup_logging log_level log_dir service_type rot rotation_time
                  retention_days rotation_size enable_console w)))"
proof -
  have p: "patcher r w =
      (r\<lparr>rec_extra := (rec_extra r)(''trace_id'' \<mapsto> PStr (fst (get_trace_id w)),
          ''service'' \<mapsto> PStr (ctx_value (service_context_var w)))\<rparr>, snd (get_trace_id w))"
    by (simp add: patcher_def get_service_context_def get_trace_id_def Let_def split: prod.splits)
  have h: "handlers (snd (get_trace_id w)) = handlers w"
    by (simp add: get_trace_id_def Let_def)
  have d: "patcher_set w \<longrightarrow> fst (logger_log r w) = deliver (handlers w) (fst (patcher r w))"
    by (auto simp add: logger_log_def p h deliver_def sink_accepts_def list_all_iff filter_empty_conv
        split: prod.splits)
  have s: "returned (setup_logging log_level log_dir service_type rot rotation_time retention_days
                  rotation_size enable_console w) \<longrightarrow>
        patcher_set (world_of (setup_logging log_level log_dir service_type rot rotation_time
                  retention_days rotation_size enable_console w))"
    by (simp add: setup_logging_closed Let_def configured_def patcher_set_logger_call
        split: option.splits)
  show ?thesis
    using d s by (auto simp add: p get_service_context_def)
qed

lemma handlers_logger_call: "handlers (logger_call l w) = handlers w"
  by (simp add: logger_call_def logger_log_def patcher_def get_trace_id_def Let_def split: prod.splits)

lemma setup_logging_returns:
  assumes "\<not> makedirs_fails w (log_dir_or_default log_dir)"
    and "level_of_name (py_upper log_level) = Some l"
  shows "setup_logging log_level log_dir service_type rot rotation_time retention_days rotation_size
           enable_console w =
         Returned () (logger_call INFO
           ((configured (log_dir_or_default log_dir) (if rot then rotation_time else rotation_size)
               retention_days (to_service_context service_type) w)
            \<lparr>handlers := installed_sinks l (log_dir_or_default log_dir) rot
                 (if rot then rotation_time else rotation_size) retention_days enable_console
                 (to_service_context service_type)\<rparr>))"
  using assms by (simp add: setup_logging_closed Let_def)







lemma in_installed_sinks:
  "h \<in> set (installed_sinks l d rot rotation rd ec e) \<longleftrightarrow>
     (ec \<and> h = mk_sink Console l console_format None console_opts)
     \<or> (\<exists>c \<in> set (contexts_to_create e).
           h = mk_sink (info_file d rot c) l file_format (Some (info_filter c)) (file_opts rotation rd False)
         \<or> h = mk_sink (error_file d rot c) ERROR file_format (Some (error_filter c)) (file_opts rotation rd False))"
  by (auto simp add: installed_sinks_def context_sinks_def)

lemma mk_sink_sel [simp]:
  "sink_target (mk_sink t l f g opts) = t"
  "sink_levelno (mk_sink t l f g opts) = level_no l"
  "sink_fmt (mk_sink t l f g opts) = f"
  "sink_flt (mk_sink t l f g opts) = g"
  "sink_opts (mk_sink t l f g opts) = opts"
  by (simp_all add: mk_sink_def)


















subsection \<open>The theorems above at concrete inputs\<close>

lemma upper_info: "py_upper ''info'' = ''INFO''"
  by code_simp

lemma level_info: "level_of_name (py_upper ''info'') = Some INFO"
  by (simp add: upper_info level_of_name_def)

lemma to_service_context_app: "to_service_context (Str ''app'') = API"
  by code_simp

lemma w0_makedirs: "\<not> makedirs_fails w0 (log_dir_or_default None)"
  by (simp add: w0_simps no_failure_def)

lemma setup_api_returns:
  "setup_logging ''info'' None (Str ''app'') True ''00:00'' 7 ''100 MB'' True w0 = Returned () w_api"
  unfolding w_api_def
  by (simp add: setup_logging_returns [OF w0_makedirs level_info])

lemma handlers_w_api:
  "handlers w_api = installed_sinks INFO ''logs'' True ''00:00'' 7 True API"
  unfolding w_api_def
  by (simp add: setup_logging_returns [OF w0_makedirs level_info] handlers_logger_call
      to_service_context_app log_dir_or_default_def)


lemma service_context_w_api: "service_context_var w_api = API"
  unfolding w_api_def
  by (simp add: setup_logging_closed Let_def w0_makedirs level_info configured_def
      to_service_context_app logger_call_def logger_log_def patcher_def get_trace_id_def
      split: prod.splits)

theorem patcher_frame_witness:
  "''access'' \<noteq> ''trace_id'' \<and> ''access'' \<noteq> ''service''
   \<and> returned (setup_logging ''info'' None (Str ''app'') True ''00:00'' 7 ''100 MB'' True w0)
   \<and> patcher_set w_api
   \<and> rec_extra (fst (patcher r_access w_api)) ''access'' = Some (PBool True)
   \<and> rec_extra (fst (patcher r_access w_api)) ''service'' = Some (PStr ''api'')
   \<and> rec_message (fst (patcher r_access w_api)) = ''started''
   \<and> fst (logger_log r_access w_api) = deliver (handlers w_api) (fst (patcher r_access w_api))"
proof -
  note A = patcher_frame [where r = r_access and w = w_api and log_level = "''info''"
      and log_dir = None and service_type = "Str ''app''" and rot = True
      and rotation_time = "''00:00''" and retention_days = 7 and rotation_size = "''100 MB''"
      and enable_console = True]
  note B = patcher_frame [where r = r_access and w = w0 and log_level = "''info''"
      and log_dir = None and service_type = "Str ''app''" and rot = True
      and rotation_time = "''00:00''" and retention_days = 7 and rotation_size = "''100 MB''"
      and enable_console = True]
  have ret: "returned (setup_logging ''info'' None (Str ''app'') True ''00:00'' 7 ''100 MB'' True w0)"
    by (simp add: setup_api_returns)
  from B ret have ps: "patcher_set w_api"
    by (simp add: setup_api_returns)
  have ne: "''access'' \<noteq> ''trace_id'' \<and> ''access'' \<noteq> ''service''" by simp
  from A have fr: "fst (patcher r_access w_api)
      = r_access\<lparr>rec_extra := rec_extra (fst (patcher r_access w_api))\<rparr>"
    by (rule conjunct1)
  from A have k: "\<forall>k. k \<noteq> ''trace_id'' \<and> k \<noteq> ''service'' \<longrightarrow>
      rec_extra (fst (patcher r_access w_api)) k = rec_extra r_access k"
    by blast
  from k ne have acc: "rec_extra (fst (patcher r_access w_api)) ''access'' = Some (PBool True)"
    by (simp add: r_access_def)
  from A have sv: "rec_extra (fst (patcher r_access w_api)) ''service''
      = Some (PStr (ctx_value (get_service_context w_api)))"
    by blast
  then have sv': "rec_extra (fst (patcher r_access w_api)) ''service'' = Some (PStr ''api'')"
    by (simp add: get_service_context_def service_context_w_api)
  have msg: "rec_message (fst (patcher r_access w_api)) = ''started''"
    by (subst fr) (simp add: r_access_def r0_def)
  from A ps have dl: "fst (logger_log r_access w_api)
      = deliver (handlers w_api) (fst (patcher r_access w_api))"
    by blast
  from ne ret ps acc sv' msg dl show ?thesis by blast
qed




subsection \<open>The file format\<close>

lemma parse_file_format:
  "parse_text [] file_format =
     Some [Fld ''time'' ''YYYY-MM-DD HH:mm:ss'', Lit '' | '', Fld ''level'' '' <8'', Lit '' | '',
           Fld ''name'' [], Lit '':'', Fld ''function'' [], Lit '':'', Fld ''line'' [],
           Lit '' | '', Fld ''extra[trace_id]'' [], Lit '' - '', Fld ''message'' []]"
  by code_simp

lemma parse_spec_literals:
  "parse_spec [] = Some (CHR '' '', None, 0, None)"
  "parse_spec '' <8'' = Some (CHR '' '', Some (CHR ''<''), 8, None)"
  by code_simp+

lemma extra_key_trace_id: "extra_key ''extra[trace_id]'' = Some ''trace_id''"
  by code_simp

lemma py_format_str_plain: "py_format_str [] s = Some s"
  by (simp add: py_format_str_def parse_spec_literals)

lemma py_format_str_ljust: "py_format_str '' <8'' s = Some (ljust 8 s)"
  by (simp add: py_format_str_def parse_spec_literals ljust_def)

lemma render_file_format:
  "rec_extra r ''trace_id'' = Some (PStr t) \<Longrightarrow>
   render file_format r =
     Some (rec_time r ''YYYY-MM-DD HH:mm:ss'' @ '' | '' @ ljust 8 (level_name (rec_level r)) @ '' | ''
           @ rec_name r @ '':'' @ rec_function r @ '':'' @ str_nat (rec_line r) @ '' | ''
           @ t @ '' - '' @ rec_message r)"
  by (simp add: render_def parse_file_format render_field_def py_format_str_plain
      py_format_str_ljust extra_key_trace_id format_value_def)

lemma log_config_logger_call: "log_config (logger_call l w) = log_config w"
  by (simp add: logger_call_def logger_log_def patcher_def get_trace_id_def Let_def split: prod.splits)

lemma patcher_trace_id:
  "rec_extra (fst (patcher r w)) ''trace_id'' = Some (PStr (fst (get_trace_id w)))"
  by (simp add: patcher_def get_service_context_def get_trace_id_def Let_def split: prod.splits)

lemma patcher_fields:
  "rec_time (fst (patcher r w)) = rec_time r" "rec_level (fst (patcher r w)) = rec_level r"
  "rec_name (fst (patcher r w)) = rec_name r" "rec_function (fst (patcher r w)) = rec_function r"
  "rec_line (fst (patcher r w)) = rec_line r" "rec_message (fst (patcher r w)) = rec_message r"
  by (simp_all add: patcher_def Let_def split: prod.splits)

lemma file_sink_format:
  "h \<in> set (installed_sinks l d rot rotation rd ec e) \<Longrightarrow> is_file_sink h \<Longrightarrow>
   sink_fmt h = file_format"
  unfolding in_installed_sinks by (auto simp add: is_file_sink_def)

text \<open>
  C9, as amended.  The default file format renders every stamped record as the
  timestamp, the level name left-aligned and filled with spaces on the right to width
  8, module:function:line, the trace id, a \<^verbatim>\<open>" - "\<close> separator and the message, with
  \<^verbatim>\<open>" | "\<close> between the leading fields; it is the format of every file sink
  \<^verbatim>\<open>setup_logging\<close> installs and the one recorded in \<^verbatim>\<open>_log_config\<close>.
\<close>

theorem file_format_layout:
  "render file_format (fst (patcher r w)) =
     Some (rec_time r ''YYYY-MM-DD HH:mm:ss'' @ '' | '' @ ljust 8 (level_name (rec_level r)) @ '' | ''
           @ rec_name r @ '':'' @ rec_function r @ '':'' @ str_nat (rec_line r) @ '' | ''
           @ fst (get_trace_id w) @ '' - '' @ rec_message r)
   \<and> (rec_extra r ''trace_id'' = Some (PStr t) \<longrightarrow>
        render file_format r =
          Some (rec_time r ''YYYY-MM-DD HH:mm:ss'' @ '' | '' @ ljust 8 (level_name (rec_level r))
                @ '' | '' @ rec_name r @ '':'' @ rec_function r @ '':'' @ str_nat (rec_line r)
                @ '' | '' @ t @ '' - '' @ rec_message r))
   \<and> (\<not> makedirs_fails w (log_dir_or_default log_dir)
        \<and> level_of_name (py_upper log_level) = Some l \<longrightarrow>
        cfg_file_format (log_config (world_of (setup_logging log_level log_dir service_type rot
            rotation_time retention_days rotation_size enable_console w))) = file_format
        \<and> (\<forall>h \<in> set (handlers (world_of (setup_logging log_level log_dir service_type rot
                rotation_time retention_days rotation_size enable_console w))).
              is_file_sink h \<longrightarrow> sink_fmt h = file_format))"
proof (intro conjI impI)
  show "render file_format (fst (patcher r w)) =
     Some (rec_time r ''YYYY-MM-DD HH:mm:ss'' @ '' | '' @ ljust 8 (level_name (rec_level r)) @ '' | ''
           @ rec_name r @ '':'' @ rec_function r @ '':'' @ str_nat (rec_line r) @ '' | ''
           @ fst (get_trace_id w) @ '' - '' @ rec_message r)"
    using render_file_format [OF patcher_trace_id, of r w] by (simp add: patcher_fields)
next
  assume "rec_extra r ''trace_id'' = Some (PStr t)"
  then show "render file_format r =
          Some (rec_time r ''YYYY-MM-DD HH:mm:ss'' @ '' | '' @ ljust 8 (level_name (rec_level r))
                @ '' | '' @ rec_name r @ '':'' @ rec_function r @ '':'' @ str_nat (rec_line r)
                @ '' | '' @ t @ '' - '' @ rec_message r)"
    by (rule render_file_format)
next
  assume a: "\<not> makedirs_fails w (log_dir_or_default log_dir)
        \<and> level_of_name (py_upper log_level) = Some l"
  then show "cfg_file_format (log_config (world_of (setup_logging log_level log_dir service_type rot
            rotation_time retention_days rotation_size enable_console w))) = file_format"
    by (simp add: setup_logging_returns log_config_logger_call configured_def)
next
  assume a: "\<not> makedirs_fails w (log_dir_or_default log_dir)
        \<and> level_of_name (py_upper log_level) = Some l"
  then show "\<forall>h \<in> set (handlers (world_of (setup_logging log_level log_dir service_type rot
                rotation_time retention_days rotation_size enable_console w))).
              is_file_sink h \<longrightarrow> sink_fmt h = file_format"
    by (auto simp add: setup_logging_returns handlers_logger_call dest: file_sink_format)
qed

text \<open>C9 as the specification words it, with the level name padded on the left, fails on a record
  of level INFO: the code writes \<^verbatim>\<open>"INFO    "\<close>, not \<^verbatim>\<open>"    INFO"\<close>.\<close>

theorem file_format_left_padding_counterexample:
  "rec_extra r_sched ''trace_id'' = Some (PStr ''00000000-0000-4000-8000-000000000000'')
   \<and> render file_format r_sched =
       Some ''2024-01-02 03:04:05 | INFO     | app.main:boot:12 | 00000000-0000-4000-8000-000000000000 - started''
   \<and> spec_file_line r_sched ''00000000-0000-4000-8000-000000000000'' =
       ''2024-01-02 03:04:05 |     INFO | app.main:boot:12 | 00000000-0000-4000-8000-000000000000 - started''
   \<and> render file_format r_sched
       \<noteq> Some (spec_file_line r_sched ''00000000-0000-4000-8000-000000000000'')"
proof -
  have a: "rec_extra r_sched ''trace_id'' = Some (PStr ''00000000-0000-4000-8000-000000000000'')"
    by (simp add: r_sched_def)
  have b: "render file_format r_sched =
       Some ''2024-01-02 03:04:05 | INFO     | app.main:boot:12 | 00000000-0000-4000-8000-000000000000 - started''"
    by code_simp
  have c: "spec_file_line r_sched ''00000000-0000-4000-8000-000000000000'' =
       ''2024-01-02 03:04:05 |     INFO | app.main:boot:12 | 00000000-0000-4000-8000-000000000000 - started''"
    by code_simp
  have d: "render file_format r_sched
       \<noteq> Some (spec_file_line r_sched ''00000000-0000-4000-8000-000000000000'')"
    unfolding b c by simp
  show ?thesis by (intro conjI a b c d)
qed

theorem file_format_layout_witness:
  "rec_extra r_sched ''trace_id'' = Some (PStr ''00000000-0000-4000-8000-000000000000'')
   \<and> \<not> makedirs_fails w0 (log_dir_or_default None)
   \<and> level_of_name (py_upper ''info'') = Some INFO
   \<and> render file_format r_sched =
       Some (''2024-01-02 03:04:05 | '' @ ljust 8 ''INFO'' @ '' | app.main:boot:12 | ''
             @ ''00000000-0000-4000-8000-000000000000 - started'')
   \<and> ljust 8 ''INFO'' = ''INFO    ''
   \<and> cfg_file_format (log_config w_api) = file_format
   \<and> (\<exists>h. h \<in> set (handlers w_api) \<and> is_file_sink h \<and> sink_fmt h = file_format)"
proof -
  note A = file_format_layout [where r = r_sched and w = w0
      and t = "''00000000-0000-4000-8000-000000000000''" and log_level = "''info''"
      and log_dir = None and l = INFO and service_type = "Str ''app''" and rot = True
      and rotation_time = "''00:00''" and retention_days = 7 and rotation_size = "''100 MB''"
      and enable_console = True]
  have a: "rec_extra r_sched ''trace_id'' = Some (PStr ''00000000-0000-4000-8000-000000000000'')"
    by (simp add: r_sched_def)
  from A a have "render file_format r_sched =
          Some (rec_time r_sched ''YYYY-MM-DD HH:mm:ss'' @ '' | ''
                @ ljust 8 (level_name (rec_level r_sched))
                @ '' | '' @ rec_name r_sched @ '':'' @ rec_function r_sched @ '':''
                @ str_nat (rec_line r_sched)
                @ '' | '' @ ''00000000-0000-4000-8000-000000000000'' @ '' - ''
                @ rec_message r_sched)"
    by blast
  moreover have "str_nat 12 = ''12''" by code_simp
  ultimately have b: "render file_format r_sched =
       Some (''2024-01-02 03:04:05 | '' @ ljust 8 ''INFO'' @ '' | app.main:boot:12 | ''
             @ ''00000000-0000-4000-8000-000000000000 - started'')"
    by (simp add: r_sched_def r0_def clock0_def)
  have c: "ljust 8 ''INFO'' = ''INFO    ''" by code_simp
  from A w0_makedirs level_info
  have d: "cfg_file_format (log_config w_api) = file_format"
    and e: "\<forall>h \<in> set (handlers w_api). is_file_sink h \<longrightarrow> sink_fmt h = file_format"
    unfolding w_api_def by blast+
  have "mk_sink (info_file ''logs'' True ''api'') INFO file_format (Some (info_filter ''api''))
          (file_opts ''00:00'' 7 False) \<in> set (handlers w_api)"
    by (simp add: handlers_w_api in_installed_sinks contexts_to_create_def)
  moreover have "is_file_sink (mk_sink (info_file ''logs'' True ''api'') INFO file_format
          (Some (info_filter ''api'')) (file_opts ''00:00'' 7 False))"
    by (simp add: is_file_sink_def info_file_def)
  ultimately have f: "\<exists>h. h \<in> set (handlers w_api) \<and> is_file_sink h \<and> sink_fmt h = file_format"
    using e by blast
  show ?thesis by (intro conjI a b c d f w0_makedirs level_info)
qed

subsection \<open>Registering a sink\<close>



















end
